theory Spec2Isabelle
  imports Complex_Main
begin

section \<open>Python values shared by the modules\<close>

text \<open>
  The exceptions the modelled code can raise. \<open>SplineError\<close> stands for whatever
  scipy's \<open>RectBivariateSpline\<close> constructor raises on data it rejects.
\<close>

datatype error =
    ValueError
  | IndexError
  | AttributeError
  | TypeError
  | ZeroDivisionError
  | SplineError

text \<open>
  Floating point values are modelled by the reals, with the non-finite results of a
  division by zero kept apart: numpy does not raise there, it produces \<open>inf\<close> or
  \<open>nan\<close>. Rounding and overflow are not modelled.
\<close>

datatype npfloat = Fin real | PInf | NInf | NaN

definition np_div :: "real \<Rightarrow> real \<Rightarrow> npfloat" where
  "np_div a b =
     (if b \<noteq> 0 then Fin (a / b)
      else if a = 0 then NaN
      else if 0 < a then PInf
      else NInf)"

text \<open>
  The position an index \<open>i\<close> denotes on an axis of length \<open>n\<close>: a negative index
  counts from the end, and an index off the axis raises.
\<close>

definition py_pos :: "nat \<Rightarrow> int \<Rightarrow> error + nat" where
  "py_pos n i =
     (if 0 \<le> i \<and> i < int n then Inr (nat i)
      else if i < 0 \<and> - int n \<le> i then Inr (nat (int n + i))
      else Inl IndexError)"

definition py_index :: "'a list \<Rightarrow> int \<Rightarrow> error + 'a" where
  "py_index xs i = (case py_pos (length xs) i of Inl e \<Rightarrow> Inl e | Inr k \<Rightarrow> Inr (xs ! k))"

text \<open>
  Slice bounds are clamped, never rejected: \<open>py_bound n i\<close> is the position a bound
  \<open>i\<close> denotes in a sequence of length \<open>n\<close>.
\<close>

definition py_bound :: "nat \<Rightarrow> int \<Rightarrow> nat" where
  "py_bound n i = (if i < 0 then nat (int n + i) else min (nat i) n)"

text \<open>The slice \<open>xs[lo:hi]\<close>; \<open>hi = None\<close> is the open slice \<open>xs[lo:]\<close>.\<close>

definition py_slice :: "'a list \<Rightarrow> int \<Rightarrow> int option \<Rightarrow> 'a list" where
  "py_slice xs lo hi =
     (let n = length xs;
          a = py_bound n lo;
          b = (case hi of None \<Rightarrow> n | Some h \<Rightarrow> py_bound n h)
      in take (b - a) (drop a xs))"

text \<open>The number of columns of a two-dimensional array held as a list of rows.\<close>

definition ncols :: "'a list list \<Rightarrow> nat" where
  "ncols a = (case a of [] \<Rightarrow> 0 | r # _ \<Rightarrow> length r)"

text \<open>The element \<open>a[i, j]\<close> of a two-dimensional array: both indices are checked.\<close>

definition py_index2 :: "'a list list \<Rightarrow> int \<Rightarrow> int \<Rightarrow> error + 'a" where
  "py_index2 a i j =
     (case py_pos (length a) i of
        Inl e \<Rightarrow> Inl e
      | Inr r \<Rightarrow> (case py_pos (ncols a) j of Inl e \<Rightarrow> Inl e | Inr c \<Rightarrow> Inr (a ! r ! c)))"

section \<open>coordinates.py\<close>

text \<open>
  Modelled from the spec: \<open>atan2\<close> is imported from \<open>prysm.mathops\<close>, which is not
  among the sources. It is the two-argument arctangent, the angle in \<open>(-pi, pi]\<close> of
  the point \<open>(x, y)\<close>, with \<open>atan2 0 0 = 0\<close>. \<open>sqrt\<close>, \<open>cos\<close> and \<open>sin\<close>
  come from the same module and are the functions on the reals.
\<close>

definition atan2 :: "real \<Rightarrow> real \<Rightarrow> real" where
  "atan2 y x =
     (if 0 < x then arctan (y / x)
      else if x < 0 then (if 0 \<le> y then arctan (y / x) + pi else arctan (y / x) - pi)
      else if 0 < y then pi / 2
      else if y < 0 then - (pi / 2)
      else 0)"

definition cart_to_polar :: "real \<Rightarrow> real \<Rightarrow> real \<times> real" where
  "cart_to_polar x y =
     (let rho = sqrt (x ^ 2 + y ^ 2);
          phi = atan2 y x
      in (rho, phi))"

definition polar_to_cart :: "real \<Rightarrow> real \<Rightarrow> real \<times> real" where
  "polar_to_cart rho phi =
     (let x = rho * cos phi;
          y = rho * sin phi
      in (x, y))"

section \<open>otf.py\<close>

text \<open>
  numpy's \<open>linspace(start, stop, num)\<close>: \<open>num\<close> evenly spaced samples with both ends
  included; a negative count is rejected.
\<close>

definition linspace :: "real \<Rightarrow> real \<Rightarrow> int \<Rightarrow> error + real list" where
  "linspace start stop num =
     (if num < 0 then Inl ValueError
      else if num = 1 then Inr [start]
      else Inr (map (\<lambda>i. start + real_of_int i * ((stop - start) / real_of_int (num - 1)))
                  [0..num - 1]))"

text \<open>
  \<open>diffraction_limited_mtf\<close> returns the pair of the frequency axis and the MTF.
  The division that computes \<open>extinction\<close> is one of Python numbers and raises at zero.
\<close>

definition diffraction_limited_mtf :: "real \<Rightarrow> real \<Rightarrow> int \<Rightarrow> error + (real list \<times> real list)" where
  "diffraction_limited_mtf fno wavelength num_pts =
     (case linspace 0 1 num_pts of
        Inl e \<Rightarrow> Inl e
      | Inr normalized_frequency \<Rightarrow>
          if wavelength / 1000 * fno = 0 then Inl ZeroDivisionError
          else
            let extinction = 1 / (wavelength / 1000 * fno);
                mtf = map (\<lambda>f. (2 / pi) * (arccos f - f * sqrt (1 - f ^ 2))) normalized_frequency
            in Inr (map (\<lambda>f. f * extinction) normalized_frequency, mtf))"

subsection \<open>The MTF class\<close>

text \<open>
  The PSF of \<open>code6.psf\<close> as \<open>otf.py\<close> reads it: the class itself is not among the
  sources, only the attributes \<open>from_psf\<close> uses are kept.
\<close>

record psf_c6 =
  psf_data :: "real list list"
  psf_sample_spacing :: real
  psf_samples :: int
  psf_center :: int

text \<open>
  An MTF instance. \<open>mtf_interpf\<close> is the attribute \<open>interpf\<close>, absent (\<open>None\<close>) until
  the first query builds the interpolant.
\<close>

record mtf =
  mtf_data :: "npfloat list list"
  mtf_unit :: "real list"
  mtf_samples :: int
  mtf_center :: int
  mtf_interpf :: "(real \<Rightarrow> real \<Rightarrow> npfloat) option"

definition MTF :: "npfloat list list \<Rightarrow> real list \<Rightarrow> mtf" where
  "MTF data unit =
     \<lparr>mtf_data = data,
      mtf_unit = unit,
      mtf_samples = int (length unit),
      mtf_center = \<lfloor>real (length unit) / 2\<rfloor>,
      mtf_interpf = None\<rparr>"

text \<open>
  The properties \<open>tan\<close> and \<open>sag\<close>. Both only read the instance, so they return a
  value and no new instance.
\<close>

definition mtf_tan :: "mtf \<Rightarrow> error + (real list \<times> npfloat list)" where
  "mtf_tan self =
     (case py_index (mtf_data self) (mtf_center self) of
        Inl e \<Rightarrow> Inl e
      | Inr row \<Rightarrow>
          Inr (py_slice (mtf_unit self) (mtf_center self) (Some (- 1)),
               py_slice row (mtf_center self) (Some (- 1))))"

definition mtf_sag :: "mtf \<Rightarrow> error + (real list \<times> npfloat list)" where
  "mtf_sag self =
     (case py_pos (ncols (mtf_data self)) (mtf_center self) of
        Inl e \<Rightarrow> Inl e
      | Inr c \<Rightarrow>
          Inr (py_slice (mtf_unit self) (mtf_center self) (Some (- 1)),
               map (\<lambda>row. row ! c) (py_slice (mtf_data self) (mtf_center self) (Some (- 1)))))"

text \<open>
  Arguments of the point queries: a Python number or a sequence of numbers; and their
  results: one value or a list of values.
\<close>

datatype pyarg = Scalar real | Seq "real list"

datatype pyres = Value npfloat | Values "npfloat list"

text \<open>
  \<open>_make_interp_function\<close> stores the interpolant on first use. scipy's
  \<open>RectBivariateSpline\<close> is the parameter \<open>spline\<close>: from the two axes and the data
  it gives the function \<open>ev\<close> evaluates, or raises.
\<close>

type_synonym spline_ctor =
  "real list \<Rightarrow> real list \<Rightarrow> npfloat list list \<Rightarrow> error + (real \<Rightarrow> real \<Rightarrow> npfloat)"

definition make_interp_function :: "spline_ctor \<Rightarrow> mtf \<Rightarrow> error + mtf" where
  "make_interp_function spline self =
     (case mtf_interpf self of
        Some _ \<Rightarrow> Inr self
      | None \<Rightarrow>
          (case spline (mtf_unit self) (mtf_unit self) (mtf_data self) of
             Inl e \<Rightarrow> Inl e
           | Inr f \<Rightarrow> Inr (self\<lparr>mtf_interpf := Some f\<rparr>)))"

text \<open>Reading \<open>self.interpf\<close>: an attribute that was never set raises.\<close>

definition interpf :: "mtf \<Rightarrow> error + (real \<Rightarrow> real \<Rightarrow> npfloat)" where
  "interpf self = (case mtf_interpf self of None \<Rightarrow> Inl AttributeError | Some f \<Rightarrow> Inr f)"

text \<open>
  \<open>float(...)\<close> of the array that \<open>ev\<close> returns for array arguments: only an array
  of one element converts.
\<close>

definition float_of_array :: "npfloat list \<Rightarrow> error + npfloat" where
  "float_of_array vs = (case vs of [v] \<Rightarrow> Inr v | _ \<Rightarrow> Inl TypeError)"

text \<open>
  \<open>exact_polar\<close> and \<open>exact_xy\<close> return their result together with the instance,
  which now holds the interpolant. The \<open>for ... in zip(...)\<close> loop that appends one
  value per pair is the \<open>map\<close> over the \<open>zip\<close>; iterating over a number raises.
\<close>

definition exact_polar ::
  "spline_ctor \<Rightarrow> mtf \<Rightarrow> pyarg \<Rightarrow> pyarg option \<Rightarrow> error + (pyres \<times> mtf)" where
  "exact_polar spline self freqs azimuths =
     (case make_interp_function spline self of
        Inl e \<Rightarrow> Inl e
      | Inr self' \<Rightarrow>
          (case interpf self' of
             Inl e \<Rightarrow> Inl e
           | Inr ev \<Rightarrow>
               let azimuths' =
                     (case azimuths of
                        Some a \<Rightarrow> a
                      | None \<Rightarrow>
                          (case freqs of
                             Scalar _ \<Rightarrow> Scalar 0
                           | Seq fs \<Rightarrow> Seq (replicate (length fs) 0)));
                   lookup = (\<lambda>freq az. case polar_to_cart freq az of (x, y) \<Rightarrow> ev x y)
               in (case freqs of
                     Scalar freq \<Rightarrow>
                       (case azimuths' of
                          Scalar az \<Rightarrow> Inr (Value (lookup freq az), self')
                        | Seq azs \<Rightarrow>
                            (case float_of_array (map (lookup freq) azs) of
                               Inl e \<Rightarrow> Inl e
                             | Inr v \<Rightarrow> Inr (Value v, self')))
                   | Seq fs \<Rightarrow>
                       (case azimuths' of
                          Scalar _ \<Rightarrow> Inl TypeError
                        | Seq azs \<Rightarrow>
                            Inr (Values (map (\<lambda>(freq, az). lookup freq az) (zip fs azs)), self')))))"

definition exact_xy ::
  "spline_ctor \<Rightarrow> mtf \<Rightarrow> pyarg \<Rightarrow> pyarg option \<Rightarrow> error + (pyres \<times> mtf)" where
  "exact_xy spline self x y =
     (case make_interp_function spline self of
        Inl e \<Rightarrow> Inl e
      | Inr self' \<Rightarrow>
          (case interpf self' of
             Inl e \<Rightarrow> Inl e
           | Inr ev \<Rightarrow>
               let y' =
                     (case y of
                        Some b \<Rightarrow> b
                      | None \<Rightarrow>
                          (case x of
                             Scalar _ \<Rightarrow> Scalar 0
                           | Seq xs \<Rightarrow> Seq (replicate (length xs) 0)))
               in (case x of
                     Scalar x0 \<Rightarrow>
                       (case y' of
                          Scalar y0 \<Rightarrow> Inr (Value (ev x0 y0), self')
                        | Seq ys \<Rightarrow>
                            (case float_of_array (map (ev x0) ys) of
                               Inl e \<Rightarrow> Inl e
                             | Inr v \<Rightarrow> Inr (Value v, self')))
                   | Seq xs \<Rightarrow>
                       (case y' of
                          Scalar _ \<Rightarrow> Inl TypeError
                        | Seq ys \<Rightarrow>
                            Inr (Values (map (\<lambda>(x0, y0). ev x0 y0) (zip xs ys)), self')))))"

subsection \<open>From a PSF to its MTF\<close>

text \<open>
  numpy's \<open>fft2\<close> is the two-dimensional discrete Fourier transform; it rejects an
  array with an empty axis. \<open>fftshift\<close> rolls every axis by half its length, which
  brings the zero-frequency term to index \<open>n div 2\<close>.
\<close>

definition dft2 :: "real list list \<Rightarrow> nat \<Rightarrow> nat \<Rightarrow> complex" where
  "dft2 a k l =
     (\<Sum>m<length a. \<Sum>n<ncols a.
        complex_of_real (a ! m ! n)
          * cis (- 2 * pi * (real k * real m / real (length a) + real l * real n / real (ncols a))))"

definition fft2 :: "real list list \<Rightarrow> error + complex list list" where
  "fft2 a =
     (if length a = 0 \<or> ncols a = 0 then Inl ValueError
      else Inr (map (\<lambda>k. map (\<lambda>l. dft2 a k l) [0..<ncols a]) [0..<length a]))"

definition roll_half :: "'a list \<Rightarrow> 'a list" where
  "roll_half xs = (let k = length xs - length xs div 2 in drop k xs @ take k xs)"

definition fftshift :: "'a list list \<Rightarrow> 'a list list" where
  "fftshift a = roll_half (map roll_half a)"

text \<open>
  Modelled from the spec: \<open>forward_ft_unit\<close> of \<open>code6.fttools\<close> is not among the
  sources. For a sample spacing and a sample count \<open>N\<close> it returns the centred
  frequency axis of length \<open>N\<close>, in steps of \<open>1 / (N * spacing)\<close>, whose index
  \<open>floor(N / 2)\<close> is the frequency 0.
\<close>

definition forward_ft_unit :: "real \<Rightarrow> int \<Rightarrow> real list" where
  "forward_ft_unit sample_spacing samples =
     map (\<lambda>i. real_of_int (i - samples div 2) / (real_of_int samples * sample_spacing))
       [0..samples - 1]"

definition from_psf :: "psf_c6 \<Rightarrow> error + mtf" where
  "from_psf psf =
     (case fft2 (psf_data psf) of
        Inl e \<Rightarrow> Inl e
      | Inr ft \<Rightarrow>
          let dat = map (map cmod) (fftshift ft);
              unit = forward_ft_unit (psf_sample_spacing psf) (psf_samples psf)
          in (case py_index2 dat (psf_center psf) (psf_center psf) of
                Inl e \<Rightarrow> Inl e
              | Inr peak \<Rightarrow> Inr (MTF (map (map (\<lambda>v. np_div v peak)) dat) unit)))"

section \<open>detector.py\<close>

text \<open>
  The PSF of \<open>prysm.psf\<close> and the Image of \<open>prysm.objects\<close> as \<open>detector.py\<close> uses
  them: neither class is among the sources, so each is the record of the attributes the
  detector reads and of the keyword arguments it constructs them from.
\<close>

record psf =
  data :: "real list list"
  sample_spacing :: real
  samples_x :: int
  samples_y :: int

record image =
  image_data :: "real list list"
  image_sample_spacing :: real

datatype capture = CapturedPSF psf | CapturedImage image

record detector =
  pixel_size :: real
  resolution :: "int \<times> int"
  bit_depth :: int
  captures :: "capture list"

definition Detector :: "real \<Rightarrow> int \<times> int \<Rightarrow> int \<Rightarrow> detector" where
  "Detector pixel res nbits =
     \<lparr>pixel_size = pixel, resolution = res, bit_depth = nbits, captures = []\<rparr>"

text \<open>
  Modelled from the spec: \<open>is_odd\<close> of \<open>prysm.util\<close> is not among the sources; it tells
  whether the residual count is odd.
\<close>

definition is_odd :: "int \<Rightarrow> bool" where
  "is_odd n = (n mod 2 = 1)"

text \<open>The two-dimensional slice \<open>a[r0:r1, c0:c1]\<close>.\<close>

definition np_slice2 :: "'a list list \<Rightarrow> int \<Rightarrow> int \<Rightarrow> int \<Rightarrow> int \<Rightarrow> 'a list list" where
  "np_slice2 a r0 r1 c0 c1 = map (\<lambda>row. py_slice row c0 (Some c1)) (py_slice a r0 (Some r1))"

text \<open>
  A four-dimensional array is its shape and its elements in row-major order.
  \<open>reshape\<close> keeps the elements and rejects a shape of another size or with a negative
  extent. (numpy infers a single extent given as \<open>-1\<close>. Here two of the extents are the
  same \<open>samples_per_pixel\<close>, so a negative one is always rejected, and a block count is
  negative beside a positive \<open>samples_per_pixel\<close> only for a negative sample count.)
\<close>

record ndarray4 =
  shape :: "nat \<times> nat \<times> nat \<times> nat"
  flat :: "real list"

definition reshape4 :: "real list list \<Rightarrow> int \<Rightarrow> int \<Rightarrow> int \<Rightarrow> int \<Rightarrow> error + ndarray4" where
  "reshape4 a d0 d1 d2 d3 =
     (if d0 < 0 \<or> d1 < 0 \<or> d2 < 0 \<or> d3 < 0 then Inl ValueError
      else if int (length (concat a)) \<noteq> d0 * d1 * d2 * d3 then Inl ValueError
      else Inr \<lparr>shape = (nat d0, nat d1, nat d2, nat d3), flat = concat a\<rparr>)"

text \<open>
  \<open>mean(axis=(1, 3))\<close>: entry \<open>[i, j]\<close> of the result is the mean of the entries
  \<open>[i, a, j, b]\<close> over all \<open>a\<close> and \<open>b\<close>. The two averaged extents are
  \<open>samples_per_pixel\<close>, which is not zero where \<open>sample_psf\<close> gets this far.
\<close>

definition mean_axes_1_3 :: "ndarray4 \<Rightarrow> real list list" where
  "mean_axes_1_3 v =
     (case shape v of (d0, d1, d2, d3) \<Rightarrow>
        map (\<lambda>i. map (\<lambda>j.
              (\<Sum>a\<leftarrow>[0..<d1]. \<Sum>b\<leftarrow>[0..<d3]. flat v ! (((i * d1 + a) * d2 + j) * d3 + b))
                / real (d1 * d3))
            [0..<d2])
          [0..<d0])"

text \<open>
  \<open>sample_psf\<close> returns the new PSF together with the detector, whose capture history
  has grown. The division by \<open>psf.sample_spacing\<close> and the floor divisions by
  \<open>samples_per_pixel\<close> raise at zero.
\<close>

definition sample_psf :: "detector \<Rightarrow> psf \<Rightarrow> error + (psf \<times> detector)" where
  "sample_psf self psf =
     (if sample_spacing psf = 0 then Inl ZeroDivisionError
      else
        let samples_per_pixel = \<lceil>pixel_size self / sample_spacing psf\<rceil>
        in if samples_per_pixel = 0 then Inl ZeroDivisionError
           else
             let total_samples_x = samples_x psf div samples_per_pixel;
                 total_samples_y = samples_y psf div samples_per_pixel;
                 final_idx_x = total_samples_x * samples_per_pixel;
                 final_idx_y = total_samples_y * samples_per_pixel;
                 residual_x = samples_x psf - final_idx_x;
                 residual_y = samples_y psf - final_idx_y;
                 trimmed_data =
                   (if \<not> is_odd residual_x then
                      let samples_to_trim_x = residual_x div 2;
                          samples_to_trim_y = residual_y div 2
                      in np_slice2 (data psf)
                           samples_to_trim_x (final_idx_x + samples_to_trim_x)
                           samples_to_trim_y (final_idx_y + samples_to_trim_y)
                    else
                      let samples_tmp_x = real_of_int residual_x / 2;
                          samples_tmp_y = real_of_int residual_y / 2;
                          samples_top = \<lceil>samples_tmp_y\<rceil>;
                          samples_bottom = \<lceil>samples_tmp_y\<rceil>;
                          samples_left = \<lceil>samples_tmp_x\<rceil>;
                          samples_right = \<lfloor>samples_tmp_x\<rfloor>
                      in np_slice2 (data psf)
                           samples_left (final_idx_x + samples_right)
                           samples_bottom (final_idx_y + samples_top))
             in (case reshape4 trimmed_data total_samples_x samples_per_pixel
                        total_samples_y samples_per_pixel of
                   Inl e \<Rightarrow> Inl e
                 | Inr intermediate_view \<Rightarrow>
                     let output_data = mean_axes_1_3 intermediate_view;
                         captured =
                           \<lparr>data = output_data,
                            sample_spacing = pixel_size self,
                            samples_x = total_samples_x,
                            samples_y = total_samples_y\<rparr>
                     in Inr (captured,
                             self\<lparr>captures := captures self @ [CapturedPSF captured]\<rparr>)))"

text \<open>
  \<open>sample_image\<close>. \<open>Image.as_psf\<close> belongs to the missing \<open>prysm.objects\<close> and is the
  parameter \<open>as_psf\<close>.
\<close>

definition sample_image :: "(image \<Rightarrow> psf) \<Rightarrow> detector \<Rightarrow> image \<Rightarrow> error + (image \<times> detector)" where
  "sample_image as_psf self img =
     (case sample_psf self (as_psf img) of
        Inl e \<Rightarrow> Inl e
      | Inr (intermediate_psf, self') \<Rightarrow>
          let captured =
                \<lparr>image_data = data intermediate_psf,
                 image_sample_spacing = sample_spacing intermediate_psf\<rparr>
          in Inr (captured, self'\<lparr>captures := captures self' @ [CapturedImage captured]\<rparr>))"

text \<open>
  The selector \<open>which\<close> of \<open>save_image\<close> and \<open>show_image\<close> is a string or an
  integer. \<open>which.lower()\<close> is a method of strings only; on ASCII it maps the capital
  letters to the small ones.
\<close>

datatype which = WStr string | WInt int

definition lower_char :: "char \<Rightarrow> char" where
  "lower_char c =
     (if 65 \<le> (of_char c :: nat) \<and> (of_char c :: nat) \<le> 90 then char_of (of_char c + 32 :: nat)
      else c)"

definition lower :: "which \<Rightarrow> error + string" where
  "lower w = (case w of WStr s \<Rightarrow> Inr (map lower_char s) | WInt _ \<Rightarrow> Inl AttributeError)"

text \<open>
  \<open>save_image\<close> ends in the call \<open>save(path, bit_depth)\<close> on the selected capture and
  \<open>show_image\<close> in the call \<open>show\<close> on it; both methods belong to the missing classes,
  so the result names the capture and the arguments of the call. \<open>show_image\<close> without a
  call returns the figure and axis it was given (\<open>None\<close>). Neither assigns to the
  detector.
\<close>

definition save_image :: "detector \<Rightarrow> string \<Rightarrow> which \<Rightarrow> error + (capture \<times> string \<times> int)" where
  "save_image self path w =
     (case lower w of
        Inl e \<Rightarrow> Inl e
      | Inr l \<Rightarrow>
          if l = ''last'' then
            (case py_index (captures self) (- 1) of
               Inl e \<Rightarrow> Inl e
             | Inr c \<Rightarrow> Inr (c, path, bit_depth self))
          else
            (case w of
               WInt n \<Rightarrow>
                 (case py_index (captures self) n of
                    Inl e \<Rightarrow> Inl e
                  | Inr c \<Rightarrow> Inr (c, path, bit_depth self))
             | WStr _ \<Rightarrow> Inl ValueError))"

definition show_image :: "detector \<Rightarrow> which \<Rightarrow> error + capture option" where
  "show_image self w =
     (case lower w of
        Inl e \<Rightarrow> Inl e
      | Inr l \<Rightarrow>
          if l = ''last'' then
            (case py_index (captures self) (- 1) of
               Inl e \<Rightarrow> Inl e
             | Inr c \<Rightarrow> Inr (Some c))
          else
            (case w of
               WInt n \<Rightarrow>
                 (case py_index (captures self) n of
                    Inl e \<Rightarrow> Inl e
                  | Inr c \<Rightarrow> Inr (Some c))
             | WStr _ \<Rightarrow> Inr None))"

section \<open>Round trip through cartesian coordinates\<close>

text \<open>Where cosine and sine change sign on \<open>[-pi, pi]\<close>.\<close>

lemma cos_nonpos_upper: "pi / 2 \<le> p \<Longrightarrow> p \<le> pi \<Longrightarrow> cos p \<le> 0"
  using cos_monotone_0_pi_le [of "pi / 2" p] by simp

lemma cos_nonpos_outer: "- pi \<le> p \<Longrightarrow> p \<le> pi \<Longrightarrow> p \<le> - (pi / 2) \<or> pi / 2 \<le> p \<Longrightarrow> cos p \<le> 0"
  using cos_nonpos_upper [of p] cos_nonpos_upper [of "- p"] by auto

lemma cos_pos_inner: "- (pi / 2) < p \<Longrightarrow> p < pi / 2 \<Longrightarrow> 0 < cos p"
  by (rule cos_gt_zero_pi)

lemma sin_neg_lower: "- pi < p \<Longrightarrow> p < 0 \<Longrightarrow> sin p < 0"
  using sin_gt_zero [of "- p"] by simp

lemma sin_nonneg_upper: "0 \<le> p \<Longrightarrow> p \<le> pi \<Longrightarrow> 0 \<le> sin p"
  by (rule sin_ge_zero)

lemma cos_zero_half: "- pi \<le> p \<Longrightarrow> p \<le> pi \<Longrightarrow> cos p = 0 \<Longrightarrow> p = pi / 2 \<or> p = - (pi / 2)"
proof -
  assume lo: "- pi \<le> p" and hi: "p \<le> pi" and z: "cos p = 0"
  show ?thesis
  proof (cases "0 \<le> p")
    case True
    have "cos p = cos (pi / 2)" using z by simp
    then have "p = pi / 2" using cos_inj_pi [of p "pi / 2"] True hi by simp
    then show ?thesis by simp
  next
    case False
    have "cos (- p) = cos (pi / 2)" using z by simp
    then have "- p = pi / 2" using cos_inj_pi [of "- p" "pi / 2"] False lo by simp
    then show ?thesis by simp
  qed
qed

lemma atan2_polar:
  assumes r: "0 < rho" and lo: "- pi \<le> phi" and hi: "phi \<le> pi"
  shows "atan2 (rho * sin phi) (rho * cos phi) = (if phi = - pi then pi else phi)"
proof -
  have q: "cos phi \<noteq> 0 \<Longrightarrow> rho * sin phi / (rho * cos phi) = tan phi"
    using r by (simp add: tan_def)
  have sx: "0 < rho * cos phi \<longleftrightarrow> 0 < cos phi" "rho * cos phi < 0 \<longleftrightarrow> cos phi < 0"
    using r by (simp_all add: zero_less_mult_iff mult_less_0_iff)
  have sy: "0 < rho * sin phi \<longleftrightarrow> 0 < sin phi" "rho * sin phi < 0 \<longleftrightarrow> sin phi < 0"
      "0 \<le> rho * sin phi \<longleftrightarrow> 0 \<le> sin phi"
    using r by (simp_all add: zero_less_mult_iff mult_less_0_iff zero_le_mult_iff)
  consider (pos) "0 < cos phi" | (neg) "cos phi < 0" | (zero) "cos phi = 0"
    by linarith
  then show ?thesis
  proof cases
    case pos
    have rng: "- (pi / 2) < phi \<and> phi < pi / 2"
      using cos_nonpos_outer [of phi] lo hi pos by linarith
    then have "arctan (tan phi) = phi" by (simp add: arctan_tan)
    moreover have "phi \<noteq> - pi" using rng pi_gt_zero by linarith
    ultimately show ?thesis using pos q sx by (simp add: atan2_def)
  next
    case neg
    have out: "phi < - (pi / 2) \<or> pi / 2 < phi"
    proof -
      have "\<not> (- (pi / 2) \<le> phi \<and> phi \<le> pi / 2)"
        using cos_ge_zero [of phi] neg by auto
      then show ?thesis by linarith
    qed
    show ?thesis
    proof (cases "0 \<le> sin phi")
      case True
      have where_phi: "phi = - pi \<or> pi / 2 < phi"
      proof -
        have "\<not> (- pi < phi \<and> phi < 0)"
          using sin_neg_lower [of phi] True by auto
        then show ?thesis using out lo pi_gt_zero by linarith
      qed
      show ?thesis
      proof (cases "phi = - pi")
        case True
        then show ?thesis using r by (simp add: atan2_def)
      next
        case False
        then have up: "pi / 2 < phi" using where_phi by simp
        have "tan (phi - pi) = tan phi" using tan_periodic_pi [of "phi - pi"] by simp
        moreover have "arctan (tan (phi - pi)) = phi - pi"
          using up hi by (intro arctan_tan) linarith+
        ultimately have "arctan (tan phi) = phi - pi" by simp
        then show ?thesis using neg True q sx sy False by (simp add: atan2_def)
      qed
    next
      case False
      then have sneg: "sin phi < 0" by simp
      have low: "- pi < phi \<and> phi < - (pi / 2)"
      proof -
        have "\<not> (0 \<le> phi \<and> phi \<le> pi)"
          using sin_nonneg_upper [of phi] sneg by auto
        moreover have "phi \<noteq> - pi" using sneg by auto
        ultimately show ?thesis using out lo hi pi_gt_zero by linarith
      qed
      have "tan (phi + pi) = tan phi" by simp
      moreover have "arctan (tan (phi + pi)) = phi + pi"
        using low by (intro arctan_tan) linarith+
      ultimately have "arctan (tan phi) = phi + pi" by simp
      moreover have "phi \<noteq> - pi" using low by simp
      ultimately show ?thesis using neg sneg q sx sy by (simp add: atan2_def)
    qed
  next
    case zero
    then have h: "phi = pi / 2 \<or> phi = - (pi / 2)" using cos_zero_half lo hi by blast
    then show ?thesis
    proof
      assume e: "phi = pi / 2"
      have ne: "pi / 2 \<noteq> - pi" using pi_gt_zero by linarith
      have "atan2 (rho * sin (pi / 2)) (rho * cos (pi / 2)) = pi / 2"
        using r by (simp add: atan2_def)
      then show ?thesis unfolding e using ne by (simp only: if_False)
    next
      assume e: "phi = - (pi / 2)"
      have ne: "- (pi / 2) \<noteq> - pi" using pi_gt_zero by linarith
      have "atan2 (rho * sin (- (pi / 2))) (rho * cos (- (pi / 2))) = - (pi / 2)"
        using r by (simp add: atan2_def)
      then show ?thesis unfolding e using ne by (simp only: if_False)
    qed
  qed
qed


text \<open>
  Claim C9. For every \<open>rho \<ge> 0\<close> and \<open>phi\<close> in \<open>[-pi, pi]\<close>, converting to cartesian
  coordinates with \<open>polar_to_cart\<close> and back with \<open>cart_to_polar\<close> returns the radius
  \<open>rho\<close> itself and, when \<open>rho > 0\<close>, an angle that differs from \<open>phi\<close> by a whole
  multiple of \<open>2 * pi\<close>; at \<open>rho = 0\<close> the angle is left unconstrained.
\<close>

theorem polar_cart_roundtrip:
  assumes "0 \<le> rho" and "- pi \<le> phi" and "phi \<le> pi"
  shows "\<exists>phi'. (case polar_to_cart rho phi of (x, y) \<Rightarrow> cart_to_polar x y) = (rho, phi')
           \<and> (0 < rho \<longrightarrow> (\<exists>k::int. phi' = phi + 2 * pi * of_int k))"
proof -
  have "(rho * cos phi)\<^sup>2 + (rho * sin phi)\<^sup>2 = rho\<^sup>2 * ((cos phi)\<^sup>2 + (sin phi)\<^sup>2)"
    by (simp only: power_mult_distrib distrib_left)
  then have radial: "sqrt ((rho * cos phi)\<^sup>2 + (rho * sin phi)\<^sup>2) = rho"
    using assms(1) by simp
  have trip: "(case polar_to_cart rho phi of (x, y) \<Rightarrow> cart_to_polar x y)
                = (rho, atan2 (rho * sin phi) (rho * cos phi))"
    using radial by (simp add: cart_to_polar_def polar_to_cart_def)
  have "\<exists>k::int. atan2 (rho * sin phi) (rho * cos phi) = phi + 2 * pi * of_int k"
    if pos: "0 < rho"
  proof (cases "phi = - pi")
    case True
    have "atan2 (rho * sin phi) (rho * cos phi) = phi + 2 * pi * of_int 1"
      using atan2_polar [OF pos assms(2) assms(3)] True by simp
    then show ?thesis by blast
  next
    case False
    have "atan2 (rho * sin phi) (rho * cos phi) = phi + 2 * pi * of_int 0"
      using atan2_polar [OF pos assms(2) assms(3)] False by simp
    then show ?thesis by blast
  qed
  then show ?thesis using trip by blast
qed

theorem polar_cart_roundtrip_witness:
  "(0::real) < 2 \<and> - pi \<le> pi / 2 \<and> pi / 2 \<le> pi
   \<and> (\<exists>phi'. (case polar_to_cart 2 (pi / 2) of (x, y) \<Rightarrow> cart_to_polar x y) = (2, phi')
           \<and> (\<exists>k::int. phi' = pi / 2 + 2 * pi * of_int k))"
proof -
  have a: "(0::real) \<le> 2" by simp
  have b: "- pi \<le> pi / 2" using pi_gt_zero by linarith
  have c: "pi / 2 \<le> pi" using pi_gt_zero by linarith
  have d: "(0::real) < 2" by simp
  show ?thesis using polar_cart_roundtrip [OF a b c] b c d by blast
qed

section \<open>The diffraction limit at its two ends\<close>

lemma linspace_unit:
  assumes "2 \<le> n"
  shows "linspace 0 1 n = Inr (map (\<lambda>i. real_of_int i / real_of_int (n - 1)) [0..n - 1])"
  using assms by (simp add: linspace_def)

text \<open>
  Claim C8. For every f-number \<open>fno > 0\<close>, wavelength \<open>> 0\<close> and \<open>num_pts \<ge> 2\<close>,
  \<open>diffraction_limited_mtf\<close> returns; its MTF array has \<open>num_pts\<close> entries, the
  entry at index \<open>i\<close> is \<open>(2/pi) * (arccos f - f * sqrt (1 - f^2))\<close> at the normalized
  frequency \<open>f = i / (num_pts - 1)\<close>, the first entry is 1 and the last entry is 0.
\<close>

theorem diffraction_limit_endpoints:
  assumes "0 < fno" and "0 < wavelength" and "2 \<le> num_pts"
  shows "\<exists>freqs mtf. diffraction_limited_mtf fno wavelength num_pts = Inr (freqs, mtf)
           \<and> int (length mtf) = num_pts
           \<and> py_index mtf 0 = Inr 1
           \<and> py_index mtf (- 1) = Inr 0
           \<and> (\<forall>i. 0 \<le> i \<and> i < num_pts \<longrightarrow>
                  mtf ! nat i =
                    (2 / pi) * (arccos (real_of_int i / real_of_int (num_pts - 1))
                      - real_of_int i / real_of_int (num_pts - 1)
                        * sqrt (1 - (real_of_int i / real_of_int (num_pts - 1)) ^ 2)))"
proof -
  define g where "g = (\<lambda>f::real. (2 / pi) * (arccos f - f * sqrt (1 - f ^ 2)))"
  define fs where "fs = map (\<lambda>i. real_of_int i / real_of_int (num_pts - 1)) [0..num_pts - 1]"
  define mtf where "mtf = map g fs"
  have nz: "wavelength / 1000 * fno \<noteq> 0" using assms by simp
  have run: "diffraction_limited_mtf fno wavelength num_pts
               = Inr (map (\<lambda>f. f * (1 / (wavelength / 1000 * fno))) fs, mtf)"
    using nz linspace_unit [OF assms(3)]
    by (simp add: diffraction_limited_mtf_def fs_def mtf_def g_def)
  have len: "int (length mtf) = num_pts"
    using assms(3) by (simp add: mtf_def fs_def)
  have at: "mtf ! nat i = g (real_of_int i / real_of_int (num_pts - 1))"
    if "0 \<le> i" "i < num_pts" for i
    using that by (simp add: mtf_def fs_def)
  have g0: "g 0 = 1" by (simp add: g_def)
  have g1: "g 1 = 0" by (simp add: g_def)
  have first: "py_index mtf 0 = Inr 1"
    using at [of 0] assms(3) len g0 by (simp add: py_index_def py_pos_def)
  have "mtf ! nat (num_pts - 1) = g 1"
    using at [of "num_pts - 1"] assms(3) by simp
  then have final: "py_index mtf (- 1) = Inr 0"
    using assms(3) len g1 by (simp add: py_index_def py_pos_def)
  show ?thesis
    using run len first final at unfolding g_def by blast
qed

theorem diffraction_limit_endpoints_witness:
  "(0::real) < 1 \<and> (0::real) < 1 / 2 \<and> (2::int) \<le> 128
   \<and> (\<exists>freqs mtf. diffraction_limited_mtf 1 (1 / 2) 128 = Inr (freqs, mtf)
           \<and> int (length mtf) = 128
           \<and> py_index mtf 0 = Inr 1
           \<and> py_index mtf (- 1) = Inr 0)"
proof -
  have a: "(0::real) < 1" by simp
  have b: "(0::real) < 1 / 2" by simp
  have c: "(2::int) \<le> 128" by simp
  show ?thesis using diffraction_limit_endpoints [OF a b c] a b c by blast
qed

section \<open>The tangential and sagittal slices\<close>

text \<open>Slices written out by index.\<close>

lemma half_floor: "\<lfloor>real n / 2\<rfloor> = int (n div 2)"
  by linarith

lemma take_drop_nth: "b \<le> length xs \<Longrightarrow> take (b - a) (drop a xs) = map (\<lambda>i. xs ! i) [a..<b]"
  by (rule nth_equalityI) simp_all

lemma bound_last: "py_bound n (- 1) = n - 1"
  by (simp add: py_bound_def)

lemma bound_inside: "c \<le> n \<Longrightarrow> py_bound n (int c) = c"
  by (simp add: py_bound_def)

lemma slice_drop_last:
  assumes "c \<le> length xs"
  shows "py_slice xs (int c) (Some (- 1)) = map (\<lambda>i. xs ! i) [c..<length xs - 1]"
proof -
  have s: "py_slice xs (int c) (Some (- 1)) = take (length xs - 1 - c) (drop c xs)"
    using assms by (simp add: py_slice_def Let_def bound_last bound_inside)
  show ?thesis
  proof (cases "c \<le> length xs - 1")
    case True
    have "take (length xs - 1 - c) (drop c xs) = map (\<lambda>i. xs ! i) [c..<length xs - 1]"
      by (rule take_drop_nth) simp
    then show ?thesis using s by simp
  next
    case False
    then show ?thesis using s by simp
  qed
qed

text \<open>
  Claim C3, as the code has it. For every MTF instance built from \<open>N \<ge> 1\<close> axis samples
  and \<open>N\<close> by \<open>N\<close> data, with \<open>center = floor(N / 2)\<close>, \<open>tan\<close> returns the pair
  \<open>(unit[center:-1], data[center, center:-1])\<close> and \<open>sag\<close> returns
  \<open>(unit[center:-1], data[center:-1, center])\<close>: the entries at the indices
  \<open>center, ..., N - 2\<close>, without the last sample. Neither changes the instance.
\<close>

theorem tan_sag_drop_last_sample:
  assumes "u \<noteq> []" and "length d = length u" and "\<forall>row \<in> set d. length row = length u"
  shows "mtf_tan (MTF d u) =
           Inr (map (\<lambda>i. u ! i) [length u div 2..<length u - 1],
                map (\<lambda>j. d ! (length u div 2) ! j) [length u div 2..<length u - 1])
       \<and> mtf_sag (MTF d u) =
           Inr (map (\<lambda>i. u ! i) [length u div 2..<length u - 1],
                map (\<lambda>i. d ! i ! (length u div 2)) [length u div 2..<length u - 1])"
proof -
  define n where "n = length u"
  define c where "c = n div 2"
  have npos: "0 < n" using assms(1) by (simp add: n_def)
  have cn: "c < n" using npos by (simp add: c_def)
  have cen: "mtf_center (MTF d u) = int c"
    by (simp add: MTF_def half_floor c_def n_def)
  have row: "py_index d (int c) = Inr (d ! c)"
    using cn assms(2) by (simp add: py_index_def py_pos_def n_def)
  have rowlen: "length (d ! c) = n"
    using assms(2,3) cn by (simp add: n_def)
  have nc: "ncols d = n"
    using assms(2,3) npos by (cases d) (auto simp: ncols_def n_def)
  have col: "py_pos (ncols d) (int c) = Inr c"
    using cn nc by (simp add: py_pos_def)
  have us: "py_slice u (int c) (Some (- 1)) = map (\<lambda>i. u ! i) [c..<n - 1]"
    using slice_drop_last [of c u] cn by (simp add: n_def)
  have rs: "py_slice (d ! c) (int c) (Some (- 1)) = map (\<lambda>j. d ! c ! j) [c..<n - 1]"
    using slice_drop_last [of c "d ! c"] cn rowlen by simp
  have ds: "py_slice d (int c) (Some (- 1)) = map (\<lambda>i. d ! i) [c..<n - 1]"
    using slice_drop_last [of c d] cn assms(2) by (simp add: n_def)
  have t: "mtf_tan (MTF d u) = Inr (map (\<lambda>i. u ! i) [c..<n - 1], map (\<lambda>j. d ! c ! j) [c..<n - 1])"
    unfolding mtf_tan_def cen using row us rs by (simp add: MTF_def)
  have s: "mtf_sag (MTF d u) = Inr (map (\<lambda>i. u ! i) [c..<n - 1], map (\<lambda>i. d ! i ! c) [c..<n - 1])"
    unfolding mtf_sag_def cen using col us ds by (simp add: MTF_def comp_def)
  show ?thesis using t s unfolding c_def n_def by simp
qed

theorem tan_sag_drop_last_sample_witness:
  "[- 1, 0, 1::real] \<noteq> []
   \<and> length [[Fin 1, Fin 2, Fin 3], [Fin 4, Fin 5, Fin 6], [Fin 7, Fin 8, Fin 9]] = length [- 1, 0, 1::real]
   \<and> mtf_tan (MTF [[Fin 1, Fin 2, Fin 3], [Fin 4, Fin 5, Fin 6], [Fin 7, Fin 8, Fin 9]] [- 1, 0, 1])
        = Inr ([0], [Fin 5])
   \<and> mtf_sag (MTF [[Fin 1, Fin 2, Fin 3], [Fin 4, Fin 5, Fin 6], [Fin 7, Fin 8, Fin 9]] [- 1, 0, 1])
        = Inr ([0], [Fin 5])"
proof -
  have a: "[- 1, 0, 1::real] \<noteq> []" by simp
  have b: "length [[Fin 1, Fin 2, Fin 3], [Fin 4, Fin 5, Fin 6], [Fin 7, Fin 8, Fin 9]] = length [- 1, 0, 1::real]"
    by simp
  have c: "\<forall>row \<in> set [[Fin 1, Fin 2, Fin 3], [Fin 4, Fin 5, Fin 6], [Fin 7, Fin 8, Fin 9]].
             length row = length [- 1, 0, 1::real]"
    by simp
  have d: "[length [- 1, 0, 1::real] div 2..<length [- 1, 0, 1::real] - 1] = [1]"
    by (simp add: upt_rec)
  show ?thesis using tan_sag_drop_last_sample [OF a b c] a b unfolding d by simp
qed

text \<open>
  The claim as stated fails on a 3 by 3 instance: the open slices \<open>unit[center:]\<close>,
  \<open>data[center, center:]\<close> and \<open>data[center:, center]\<close> hold two entries each, the
  slices that \<open>tan\<close> and \<open>sag\<close> return hold one.
\<close>

theorem tan_sag_full_half_counterexample:
  "mtf_tan (MTF [[Fin 1, Fin 2, Fin 3], [Fin 4, Fin 5, Fin 6], [Fin 7, Fin 8, Fin 9]] [- 1, 0, 1])
     = Inr ([0], [Fin 5])
   \<and> mtf_tan (MTF [[Fin 1, Fin 2, Fin 3], [Fin 4, Fin 5, Fin 6], [Fin 7, Fin 8, Fin 9]] [- 1, 0, 1])
     \<noteq> Inr (py_slice [- 1, 0, 1] 1 None, py_slice [Fin 4, Fin 5, Fin 6] 1 None)
   \<and> mtf_sag (MTF [[Fin 1, Fin 2, Fin 3], [Fin 4, Fin 5, Fin 6], [Fin 7, Fin 8, Fin 9]] [- 1, 0, 1])
     = Inr ([0], [Fin 5])
   \<and> mtf_sag (MTF [[Fin 1, Fin 2, Fin 3], [Fin 4, Fin 5, Fin 6], [Fin 7, Fin 8, Fin 9]] [- 1, 0, 1])
     \<noteq> Inr (py_slice [- 1, 0, 1] 1 None,
            map (\<lambda>row. row ! 1) (py_slice [[Fin 1, Fin 2, Fin 3], [Fin 4, Fin 5, Fin 6], [Fin 7, Fin 8, Fin 9]] 1 None))
   \<and> mtf_center (MTF [[Fin 1, Fin 2, Fin 3], [Fin 4, Fin 5, Fin 6], [Fin 7, Fin 8, Fin 9]] [- 1, 0, 1]) = 1"
  by (simp add: mtf_tan_def mtf_sag_def MTF_def py_index_def py_pos_def py_slice_def py_bound_def
      ncols_def)

section \<open>Point queries on sequences of different lengths\<close>

lemma interpf_after_make:
  "make_interp_function spline m = Inr m' \<Longrightarrow> \<exists>ev. interpf m' = Inr ev \<and> mtf_interpf m' = Some ev"
  by (auto simp: make_interp_function_def interpf_def split: option.splits sum.splits)

text \<open>
  Claim C5. For every MTF instance and all sequences \<open>freqs\<close>, \<open>azimuths\<close> (for
  \<open>exact_polar\<close>) and \<open>x\<close>, \<open>y\<close> (for \<open>exact_xy\<close>), whatever their lengths: the
  only error the call can raise is the one of building the interpolant, never one about
  the lengths; otherwise it returns exactly \<open>min(len(a), len(b))\<close> values, the value at
  index \<open>i\<close> being the interpolant at the pair of the \<open>i\<close>-th elements of the two
  sequences.
\<close>

theorem exact_queries_truncate:
  "(\<forall>e. make_interp_function spline m = Inl e \<longrightarrow>
        exact_polar spline m (Seq freqs) (Some (Seq azimuths)) = Inl e
      \<and> exact_xy spline m (Seq xs) (Some (Seq ys)) = Inl e)
   \<and> (\<forall>m'. make_interp_function spline m = Inr m' \<longrightarrow>
        (\<exists>ev outs outs'.
            mtf_interpf m' = Some ev
          \<and> exact_polar spline m (Seq freqs) (Some (Seq azimuths)) = Inr (Values outs, m')
          \<and> length outs = min (length freqs) (length azimuths)
          \<and> (\<forall>i < length outs.
                 outs ! i = (case polar_to_cart (freqs ! i) (azimuths ! i) of (x, y) \<Rightarrow> ev x y))
          \<and> exact_xy spline m (Seq xs) (Some (Seq ys)) = Inr (Values outs', m')
          \<and> length outs' = min (length xs) (length ys)
          \<and> (\<forall>i < length outs'. outs' ! i = ev (xs ! i) (ys ! i))))"
proof (intro conjI allI impI)
  fix e assume "make_interp_function spline m = Inl e"
  then show "exact_polar spline m (Seq freqs) (Some (Seq azimuths)) = Inl e"
    by (simp add: exact_polar_def)
next
  fix e assume "make_interp_function spline m = Inl e"
  then show "exact_xy spline m (Seq xs) (Some (Seq ys)) = Inl e"
    by (simp add: exact_xy_def)
next
  fix m' assume mk: "make_interp_function spline m = Inr m'"
  then obtain ev where ev: "interpf m' = Inr ev" "mtf_interpf m' = Some ev"
    using interpf_after_make by blast
  define outs where
    "outs = map (\<lambda>(freq, az). case polar_to_cart freq az of (x, y) \<Rightarrow> ev x y) (zip freqs azimuths)"
  define outs' where "outs' = map (\<lambda>(x0, y0). ev x0 y0) (zip xs ys)"
  have p: "exact_polar spline m (Seq freqs) (Some (Seq azimuths)) = Inr (Values outs, m')"
    using mk ev by (simp add: exact_polar_def outs_def)
  have q: "exact_xy spline m (Seq xs) (Some (Seq ys)) = Inr (Values outs', m')"
    using mk ev by (simp add: exact_xy_def outs'_def)
  have lp: "length outs = min (length freqs) (length azimuths)" by (simp add: outs_def)
  have lq: "length outs' = min (length xs) (length ys)" by (simp add: outs'_def)
  have ep: "\<forall>i < length outs.
              outs ! i = (case polar_to_cart (freqs ! i) (azimuths ! i) of (x, y) \<Rightarrow> ev x y)"
    by (simp add: outs_def)
  have eq: "\<forall>i < length outs'. outs' ! i = ev (xs ! i) (ys ! i)"
    by (simp add: outs'_def)
  show "\<exists>ev outs outs'.
            mtf_interpf m' = Some ev
          \<and> exact_polar spline m (Seq freqs) (Some (Seq azimuths)) = Inr (Values outs, m')
          \<and> length outs = min (length freqs) (length azimuths)
          \<and> (\<forall>i < length outs.
                 outs ! i = (case polar_to_cart (freqs ! i) (azimuths ! i) of (x, y) \<Rightarrow> ev x y))
          \<and> exact_xy spline m (Seq xs) (Some (Seq ys)) = Inr (Values outs', m')
          \<and> length outs' = min (length xs) (length ys)
          \<and> (\<forall>i < length outs'. outs' ! i = ev (xs ! i) (ys ! i))"
    using ev(2) p q lp lq ep eq by blast
qed


theorem exact_queries_truncate_witness:
  "make_interp_function (\<lambda>u v d. Inl SplineError) (MTF [[Fin 1]] [0]) = Inl SplineError
   \<and> exact_polar (\<lambda>u v d. Inl SplineError) (MTF [[Fin 1]] [0]) (Seq [1, 2, 3]) (Some (Seq [0, 0]))
        = Inl SplineError
   \<and> exact_xy (\<lambda>u v d. Inl SplineError) (MTF [[Fin 1]] [0]) (Seq [1, 2, 3]) (Some (Seq [4]))
        = Inl SplineError
   \<and> make_interp_function (\<lambda>u v d. Inr (\<lambda>x y. Fin (x + y))) (MTF [[Fin 1]] [0])
        = Inr ((MTF [[Fin 1]] [0])\<lparr>mtf_interpf := Some (\<lambda>x y. Fin (x + y))\<rparr>)
   \<and> (\<exists>outs outs'.
          exact_polar (\<lambda>u v d. Inr (\<lambda>x y. Fin (x + y))) (MTF [[Fin 1]] [0])
              (Seq [1, 2, 3]) (Some (Seq [0, 0]))
            = Inr (Values outs, (MTF [[Fin 1]] [0])\<lparr>mtf_interpf := Some (\<lambda>x y. Fin (x + y))\<rparr>)
        \<and> length outs = 2
        \<and> exact_xy (\<lambda>u v d. Inr (\<lambda>x y. Fin (x + y))) (MTF [[Fin 1]] [0])
              (Seq [1, 2, 3]) (Some (Seq [4]))
            = Inr (Values outs', (MTF [[Fin 1]] [0])\<lparr>mtf_interpf := Some (\<lambda>x y. Fin (x + y))\<rparr>)
        \<and> length outs' = 1)"
proof -
  have bad: "make_interp_function (\<lambda>u v d. Inl SplineError) (MTF [[Fin 1]] [0]) = Inl SplineError"
    by (simp add: make_interp_function_def MTF_def)
  have good: "make_interp_function (\<lambda>u v d. Inr (\<lambda>x y. Fin (x + y))) (MTF [[Fin 1]] [0])
        = Inr ((MTF [[Fin 1]] [0])\<lparr>mtf_interpf := Some (\<lambda>x y. Fin (x + y))\<rparr>)"
    by (simp add: make_interp_function_def MTF_def)
  have l2: "min (length [1, 2, 3::real]) (length [0, 0::real]) = 2" by simp
  have l1: "min (length [1, 2, 3::real]) (length [4::real]) = 1" by simp
  show ?thesis
    using bad good
      exact_queries_truncate [of "\<lambda>u v d. Inl SplineError" "MTF [[Fin 1]] [0]" "[1, 2, 3]" "[0, 0]" "[1, 2, 3]" "[4]"]
      exact_queries_truncate [of "\<lambda>u v d. Inr (\<lambda>x y. Fin (x + y))" "MTF [[Fin 1]] [0]" "[1, 2, 3]" "[0, 0]" "[1, 2, 3]" "[4]"]
    unfolding l1 l2 by blast
qed


section \<open>Normalization of the MTF\<close>

text \<open>
  After the shift the centre of the transform is its zero-frequency term, and that term
  is the sum of the data.
\<close>

lemma length_roll_half: "length (roll_half xs) = length xs"
  by (simp add: roll_half_def Let_def)

lemma roll_half_center: "xs \<noteq> [] \<Longrightarrow> roll_half xs ! (length xs div 2) = xs ! 0"
proof -
  assume ne: "xs \<noteq> []"
  define k where "k = length xs - length xs div 2"
  have kpos: "0 < k" using ne by (simp add: k_def)
  have ld: "length (drop k xs) = length xs div 2" by (simp add: k_def)
  have "(drop k xs @ take k xs) ! (length xs div 2) = take k xs ! 0"
    using ld by (simp add: nth_append)
  also have "\<dots> = xs ! 0" using kpos by simp
  finally show ?thesis by (simp add: roll_half_def Let_def k_def)
qed

lemma fftshift_center:
  assumes "a \<noteq> []" and "a ! 0 \<noteq> []"
  shows "fftshift a ! (length a div 2) ! (length (a ! 0) div 2) = a ! 0 ! 0"
proof -
  have "roll_half (map roll_half a) ! (length (map roll_half a) div 2) = map roll_half a ! 0"
    using assms(1) by (intro roll_half_center) simp
  then have "fftshift a ! (length a div 2) = roll_half (a ! 0)"
    using assms(1) by (simp add: fftshift_def)
  then show ?thesis using roll_half_center [OF assms(2)] by simp
qed

lemma dft2_dc:
  assumes "\<forall>row \<in> set a. length row = ncols a"
  shows "dft2 a 0 0 = complex_of_real (sum_list (map sum_list a))"
proof -
  have rows: "sum_list (a ! m) = (\<Sum>n<ncols a. a ! m ! n)" if "m < length a" for m
    using assms that by (simp add: sum_list_sum_nth atLeast0LessThan)
  have "sum_list (map sum_list a) = (\<Sum>m<length a. sum_list (a ! m))"
    by (simp add: sum_list_sum_nth atLeast0LessThan)
  also have "\<dots> = (\<Sum>m<length a. \<Sum>n<ncols a. a ! m ! n)"
    using rows by simp
  finally show ?thesis by (simp add: dft2_def)
qed


lemma length_fftshift: "length (fftshift a) = length a"
  by (simp add: fftshift_def length_roll_half)

lemma rows_fftshift:
  assumes "\<forall>row \<in> set a. length row = n"
  shows "\<forall>row \<in> set (fftshift a). length row = n"
proof -
  have "set (fftshift a) \<subseteq> roll_half ` set a"
    by (auto simp: fftshift_def roll_half_def Let_def dest: in_set_dropD in_set_takeD)
  then show ?thesis using assms by (auto simp: length_roll_half)
qed

lemma ncols_rect: "a \<noteq> [] \<Longrightarrow> \<forall>row \<in> set a. length row = n \<Longrightarrow> ncols a = n"
  by (cases a) (auto simp: ncols_def)

lemma py_index2_rect:
  assumes "\<forall>row \<in> set a. length row = n" and "length a = n" and "c < n"
  shows "py_index2 a (int c) (int c) = Inr (a ! c ! c)"
proof -
  have "a \<noteq> []" using assms(2,3) by auto
  then have "ncols a = n" using assms(1) by (rule ncols_rect)
  then show ?thesis using assms(2,3) by (simp add: py_index2_def py_pos_def)
qed

text \<open>
  Claim C1, as the code has it. For every PSF with square \<open>N\<close> by \<open>N\<close> data, sample count
  \<open>N\<close> and center index \<open>floor(N / 2)\<close>, whose data does not sum to zero,
  \<open>MTF.from_psf\<close> returns an MTF with the same center index and the value exactly 1 at
  \<open>data[center, center]\<close>.
\<close>

theorem from_psf_center_is_one:
  assumes sq: "\<forall>row \<in> set (psf_data p). length row = length (psf_data p)"
    and ns: "psf_samples p = int (length (psf_data p))"
    and ce: "psf_center p = \<lfloor>real_of_int (psf_samples p) / 2\<rfloor>"
    and nz: "sum_list (map sum_list (psf_data p)) \<noteq> 0"
  shows "\<exists>m. from_psf p = Inr m
           \<and> mtf_center m = psf_center p
           \<and> py_index2 (mtf_data m) (mtf_center m) (mtf_center m) = Inr (Fin 1)"
proof -
  define a where "a = psf_data p"
  define N where "N = length a"
  define c where "c = N div 2"
  define F where "F = map (\<lambda>k. map (\<lambda>l. dft2 a k l) [0..<ncols a]) [0..<length a]"
  define dat where "dat = map (map cmod) (fftshift F)"
  define peak where "peak = \<bar>sum_list (map sum_list a)\<bar>"
  define unit where "unit = forward_ft_unit (psf_sample_spacing p) (psf_samples p)"
  have ane: "a \<noteq> []" using nz by (auto simp: a_def)
  then have Npos: "0 < N" by (simp add: N_def)
  have cN: "c < N" using Npos by (simp add: c_def)
  have nc: "ncols a = N"
    using ane sq by (cases a) (auto simp: ncols_def N_def a_def)
  have ft: "fft2 a = Inr F"
    using ane nc Npos by (simp add: fft2_def F_def)
  have Flen: "length F = N" by (simp add: F_def N_def)
  have Frow: "\<forall>row \<in> set F. length row = N" by (auto simp: F_def nc)
  have F0: "F ! 0 = map (\<lambda>l. dft2 a 0 l) [0..<N]"
    using Npos by (simp add: F_def nc N_def)
  have F00: "F ! 0 ! 0 = dft2 a 0 0" using Npos by (simp add: F0)
  have Fne: "F \<noteq> []" "F ! 0 \<noteq> []" using Npos Flen F0 by auto
  have "fftshift F ! (length F div 2) ! (length (F ! 0) div 2) = F ! 0 ! 0"
    by (rule fftshift_center [OF Fne])
  moreover have "length (F ! 0) = N" by (simp add: F0)
  ultimately have mid: "fftshift F ! c ! c = dft2 a 0 0"
    by (simp add: Flen F00 c_def)
  have sl: "length (fftshift F) = N" by (simp add: length_fftshift Flen)
  have srows: "\<forall>row \<in> set (fftshift F). length row = N"
    using Frow by (rule rows_fftshift)
  have srow: "length (fftshift F ! c) = N" using srows cN sl by simp
  have dl: "length dat = N" by (simp add: dat_def sl)
  have drows: "\<forall>row \<in> set dat. length row = N"
    using srows by (auto simp: dat_def)
  have dcc: "dat ! c ! c = peak"
  proof -
    have "dft2 a 0 0 = complex_of_real (sum_list (map sum_list a))"
      using sq nc by (intro dft2_dc) (simp add: a_def N_def)
    then have "cmod (fftshift F ! c ! c) = peak"
      unfolding mid peak_def by (simp only: norm_of_real)
    moreover have "dat ! c ! c = cmod (fftshift F ! c ! c)"
      using cN sl srow by (simp add: dat_def)
    ultimately show ?thesis by simp
  qed
  have pk: "py_index2 dat (int c) (int c) = Inr peak"
    using py_index2_rect [OF drows dl cN] dcc by simp
  have cen: "psf_center p = int c"
    using ce ns by (simp add: c_def N_def a_def) linarith
  have ul: "length unit = N"
    using ns Npos by (simp add: unit_def forward_ft_unit_def N_def a_def)
  define m where "m = MTF (map (map (\<lambda>v. np_div v peak)) dat) unit"
  have run: "from_psf p = Inr m"
    using ft pk cen
    by (simp add: from_psf_def a_def [symmetric] dat_def [symmetric] unit_def [symmetric] m_def Let_def)
  have mc: "mtf_center m = int c"
    by (simp add: m_def MTF_def ul c_def) linarith
  have pz: "peak \<noteq> 0" using nz by (simp add: peak_def a_def)
  define out where "out = map (map (\<lambda>v. np_div v peak)) dat"
  have ol: "length out = N" by (simp add: out_def dl)
  have orows: "\<forall>row \<in> set out. length row = N"
    using drows by (auto simp: out_def)
  have "out ! c ! c = np_div (dat ! c ! c) peak"
    using cN dl drows by (simp add: out_def)
  then have "py_index2 out (int c) (int c) = Inr (np_div peak peak)"
    using py_index2_rect [OF orows ol cN] dcc by simp
  then have "py_index2 (mtf_data m) (int c) (int c) = Inr (np_div peak peak)"
    by (simp add: m_def MTF_def out_def)
  then have one: "py_index2 (mtf_data m) (mtf_center m) (mtf_center m) = Inr (Fin 1)"
    using pz by (simp add: mc np_div_def)
  show ?thesis using run mc cen one by simp
qed


theorem from_psf_center_is_one_witness:
  "psf_samples \<lparr>psf_data = [[1, 2], [3, 4]], psf_sample_spacing = 1, psf_samples = 2, psf_center = 1\<rparr>
     = int (length (psf_data \<lparr>psf_data = [[1, 2], [3, 4]], psf_sample_spacing = 1, psf_samples = 2, psf_center = 1\<rparr>))
   \<and> sum_list (map sum_list (psf_data \<lparr>psf_data = [[1, 2], [3, 4]], psf_sample_spacing = 1, psf_samples = 2, psf_center = 1\<rparr>)) = 10
   \<and> (\<exists>m. from_psf \<lparr>psf_data = [[1, 2], [3, 4]], psf_sample_spacing = 1, psf_samples = 2, psf_center = 1\<rparr> = Inr m
          \<and> mtf_center m = 1
          \<and> py_index2 (mtf_data m) (mtf_center m) (mtf_center m) = Inr (Fin 1))"
proof -
  have a: "\<forall>row \<in> set (psf_data \<lparr>psf_data = [[1, 2], [3, 4]], psf_sample_spacing = 1, psf_samples = 2, psf_center = 1\<rparr>).
             length row = length (psf_data \<lparr>psf_data = [[1, 2], [3, 4]], psf_sample_spacing = 1, psf_samples = 2, psf_center = 1\<rparr>)"
    by simp
  have b: "psf_samples \<lparr>psf_data = [[1, 2], [3, 4]], psf_sample_spacing = 1, psf_samples = 2, psf_center = 1\<rparr>
     = int (length (psf_data \<lparr>psf_data = [[1, 2], [3, 4]], psf_sample_spacing = 1, psf_samples = 2, psf_center = 1\<rparr>))"
    by simp
  have c: "psf_center \<lparr>psf_data = [[1, 2], [3, 4]], psf_sample_spacing = 1, psf_samples = 2, psf_center = 1\<rparr>
     = \<lfloor>real_of_int (psf_samples \<lparr>psf_data = [[1, 2], [3, 4]], psf_sample_spacing = 1, psf_samples = 2, psf_center = 1\<rparr>) / 2\<rfloor>"
    by simp
  have d: "sum_list (map sum_list (psf_data \<lparr>psf_data = [[1, 2], [3, 4]], psf_sample_spacing = 1, psf_samples = 2, psf_center = 1\<rparr>)) \<noteq> 0"
    by simp
  have e: "sum_list (map sum_list (psf_data \<lparr>psf_data = [[1, 2], [3, 4]], psf_sample_spacing = 1, psf_samples = 2, psf_center = 1\<rparr>)) = 10"
    by simp
  show ?thesis using from_psf_center_is_one [OF a b c d] b e by simp
qed

text \<open>
  The claim as stated fails for a PSF whose data sums to zero: the centre magnitude is 0,
  the normalization divides 0 by 0 and every entry, the centre included, is \<open>nan\<close>.
\<close>

lemma dft2_zero: "dft2 [[0, 0], [0, 0]] k l = 0"
  by (simp add: dft2_def ncols_def lessThan_Suc numeral_2_eq_2)

theorem from_psf_zero_sum_counterexample:
  "from_psf \<lparr>psf_data = [[0, 0], [0, 0]], psf_sample_spacing = 1, psf_samples = 2, psf_center = 1\<rparr>
     = Inr (MTF [[NaN, NaN], [NaN, NaN]] (forward_ft_unit 1 2))
   \<and> mtf_center (MTF [[NaN, NaN], [NaN, NaN]] (forward_ft_unit 1 2)) = 1
   \<and> py_index2 [[NaN, NaN], [NaN, NaN]] 1 1 = Inr NaN
   \<and> py_index2 [[NaN, NaN], [NaN, NaN]] 1 1 \<noteq> Inr (Fin 1)"
proof -
  have up: "[0..<2] = [0, 1]" by (simp add: upt_rec)
  have ft: "fft2 [[0, 0], [0, 0]] = Inr [[0, 0], [0, 0]]"
    by (simp add: fft2_def ncols_def up dft2_zero)
  have sh: "fftshift [[0, 0], [0, 0::complex]] = [[0, 0], [0, 0]]"
    by (simp add: fftshift_def roll_half_def)
  have ix: "py_index2 [[0, 0], [0, 0::real]] 1 1 = Inr 0"
    by (simp add: py_index2_def py_pos_def ncols_def)
  have run: "from_psf \<lparr>psf_data = [[0, 0], [0, 0]], psf_sample_spacing = 1, psf_samples = 2, psf_center = 1\<rparr>
     = Inr (MTF [[NaN, NaN], [NaN, NaN]] (forward_ft_unit 1 2))"
    by (simp add: from_psf_def ft sh ix np_div_def)
  have cen: "mtf_center (MTF [[NaN, NaN], [NaN, NaN]] (forward_ft_unit 1 2)) = 1"
    by (simp add: MTF_def forward_ft_unit_def)
  have at: "py_index2 [[NaN, NaN], [NaN, NaN]] 1 1 = Inr NaN"
    by (simp add: py_index2_def py_pos_def ncols_def)
  show ?thesis using run cen at by simp
qed


section \<open>The capture history\<close>

text \<open>What a successful \<open>sample_psf\<close> returns.\<close>

lemma sample_psf_success:
  assumes "sample_psf d p = Inr (out, d')"
  shows "sample_spacing out = pixel_size d
       \<and> d' = d\<lparr>captures := captures d @ [CapturedPSF out]\<rparr>"
proof -
  from assms obtain view where
    "out = \<lparr>data = mean_axes_1_3 view,
            sample_spacing = pixel_size d,
            samples_x = samples_x p div \<lceil>pixel_size d / sample_spacing p\<rceil>,
            samples_y = samples_y p div \<lceil>pixel_size d / sample_spacing p\<rceil>\<rparr>"
    and "d' = d\<lparr>captures := captures d @ [CapturedPSF out]\<rparr>"
    unfolding sample_psf_def Let_def
    by (auto split: if_splits sum.splits)
  then show ?thesis by simp
qed

lemma last_appended: "py_index (xs @ [x]) (- 1) = Inr x"
  by (simp add: py_index_def py_pos_def nth_append)

text \<open>
  Claim C6. Whenever \<open>sample_psf\<close> accepts a PSF, the PSF it returns has the detector's
  \<open>pixel_size\<close> as its \<open>sample_spacing\<close>, it is the last entry of the capture history, and
  the detector's \<open>pixel_size\<close> is unchanged.
\<close>

theorem sample_psf_spacing_is_pixel_size:
  assumes "sample_psf d p = Inr (out, d')"
  shows "sample_spacing out = pixel_size d
       \<and> py_index (captures d') (- 1) = Inr (CapturedPSF out)
       \<and> pixel_size d' = pixel_size d"
  using sample_psf_success [OF assms] last_appended [of "captures d" "CapturedPSF out"]
  by simp

theorem sample_psf_spacing_is_pixel_size_witness:
  "sample_psf (Detector 2 (1024, 1024) 14)
       \<lparr>data = [[1, 2], [3, 4]], sample_spacing = 1, samples_x = 2, samples_y = 2\<rparr>
     = Inr (\<lparr>data = [[5 / 2]], sample_spacing = 2, samples_x = 1, samples_y = 1\<rparr>,
            (Detector 2 (1024, 1024) 14)
              \<lparr>captures := [CapturedPSF \<lparr>data = [[5 / 2]], sample_spacing = 2, samples_x = 1, samples_y = 1\<rparr>]\<rparr>)
   \<and> sample_spacing \<lparr>data = [[5 / 2]], sample_spacing = 2, samples_x = 1, samples_y = 1\<rparr>
       = pixel_size (Detector 2 (1024, 1024) 14)
   \<and> pixel_size ((Detector 2 (1024, 1024) 14)
              \<lparr>captures := [CapturedPSF \<lparr>data = [[5 / 2]], sample_spacing = 2, samples_x = 1, samples_y = 1\<rparr>]\<rparr>)
       = pixel_size (Detector 2 (1024, 1024) 14)"
proof -
  have run: "sample_psf (Detector 2 (1024, 1024) 14)
       \<lparr>data = [[1, 2], [3, 4]], sample_spacing = 1, samples_x = 2, samples_y = 2\<rparr>
     = Inr (\<lparr>data = [[5 / 2]], sample_spacing = 2, samples_x = 1, samples_y = 1\<rparr>,
            (Detector 2 (1024, 1024) 14)
              \<lparr>captures := [CapturedPSF \<lparr>data = [[5 / 2]], sample_spacing = 2, samples_x = 1, samples_y = 1\<rparr>]\<rparr>)"
    by (simp add: sample_psf_def Detector_def is_odd_def np_slice2_def py_slice_def py_bound_def
        reshape4_def Let_def mean_axes_1_3_def upt_rec)
  show ?thesis using sample_psf_spacing_is_pixel_size [OF run] run by simp
qed

text \<open>
  Claim C10. Every successful \<open>sample_psf\<close> appends exactly one entry, the new PSF, to
  \<open>captures\<close>; every successful \<open>sample_image\<close> appends exactly two, first the PSF that
  \<open>sample_psf\<close> produced and then the new Image, which becomes \<open>captures[-1]\<close>. The
  entries already there stay as they are, in place. (\<open>save_image\<close> and \<open>show_image\<close> do not
  assign to the detector at all.)
\<close>

theorem captures_append_only:
  "(\<forall>out d'. sample_psf d p = Inr (out, d') \<longrightarrow> captures d' = captures d @ [CapturedPSF out])
   \<and> (\<forall>im d'. sample_image as_psf d img = Inr (im, d') \<longrightarrow>
         (\<exists>q d1. sample_psf d (as_psf img) = Inr (q, d1)
            \<and> captures d' = captures d @ [CapturedPSF q, CapturedImage im]
            \<and> py_index (captures d') (- 1) = Inr (CapturedImage im)))"
proof (intro conjI allI impI)
  fix out d' assume "sample_psf d p = Inr (out, d')"
  then show "captures d' = captures d @ [CapturedPSF out]"
    using sample_psf_success by fastforce
next
  fix im d' assume run: "sample_image as_psf d img = Inr (im, d')"
  then obtain q d1 where q: "sample_psf d (as_psf img) = Inr (q, d1)"
    and d': "d' = d1\<lparr>captures := captures d1 @ [CapturedImage im]\<rparr>"
    unfolding sample_image_def Let_def by (auto split: sum.splits)
  have "captures d1 = captures d @ [CapturedPSF q]"
    using sample_psf_success [OF q] by simp
  then have c: "captures d' = captures d @ [CapturedPSF q, CapturedImage im]"
    using d' by simp
  have "py_index (captures d') (- 1) = Inr (CapturedImage im)"
    using last_appended [of "captures d @ [CapturedPSF q]" "CapturedImage im"] c by simp
  then show "\<exists>q d1. sample_psf d (as_psf img) = Inr (q, d1)
            \<and> captures d' = captures d @ [CapturedPSF q, CapturedImage im]
            \<and> py_index (captures d') (- 1) = Inr (CapturedImage im)"
    using q c by blast
qed

theorem captures_append_only_witness:
  "sample_psf ((Detector 2 (1024, 1024) 14)\<lparr>captures := [CapturedImage \<lparr>image_data = [[9]], image_sample_spacing = 1\<rparr>]\<rparr>)
       \<lparr>data = [[1, 2], [3, 4]], sample_spacing = 1, samples_x = 2, samples_y = 2\<rparr>
     = Inr (\<lparr>data = [[5 / 2]], sample_spacing = 2, samples_x = 1, samples_y = 1\<rparr>,
            (Detector 2 (1024, 1024) 14)
              \<lparr>captures := [CapturedImage \<lparr>image_data = [[9]], image_sample_spacing = 1\<rparr>,
                            CapturedPSF \<lparr>data = [[5 / 2]], sample_spacing = 2, samples_x = 1, samples_y = 1\<rparr>]\<rparr>)
   \<and> sample_image (\<lambda>im. \<lparr>data = image_data im, sample_spacing = image_sample_spacing im,
                     samples_x = int (length (image_data im)), samples_y = int (ncols (image_data im))\<rparr>)
       ((Detector 2 (1024, 1024) 14)\<lparr>captures := [CapturedImage \<lparr>image_data = [[9]], image_sample_spacing = 1\<rparr>]\<rparr>)
       \<lparr>image_data = [[1, 2], [3, 4]], image_sample_spacing = 1\<rparr>
     = Inr (\<lparr>image_data = [[5 / 2]], image_sample_spacing = 2\<rparr>,
            (Detector 2 (1024, 1024) 14)
              \<lparr>captures := [CapturedImage \<lparr>image_data = [[9]], image_sample_spacing = 1\<rparr>,
                            CapturedPSF \<lparr>data = [[5 / 2]], sample_spacing = 2, samples_x = 1, samples_y = 1\<rparr>,
                            CapturedImage \<lparr>image_data = [[5 / 2]], image_sample_spacing = 2\<rparr>]\<rparr>)"
proof -
  have run: "sample_psf ((Detector 2 (1024, 1024) 14)\<lparr>captures := [CapturedImage \<lparr>image_data = [[9]], image_sample_spacing = 1\<rparr>]\<rparr>)
       \<lparr>data = [[1, 2], [3, 4]], sample_spacing = 1, samples_x = 2, samples_y = 2\<rparr>
     = Inr (\<lparr>data = [[5 / 2]], sample_spacing = 2, samples_x = 1, samples_y = 1\<rparr>,
            (Detector 2 (1024, 1024) 14)
              \<lparr>captures := [CapturedImage \<lparr>image_data = [[9]], image_sample_spacing = 1\<rparr>,
                            CapturedPSF \<lparr>data = [[5 / 2]], sample_spacing = 2, samples_x = 1, samples_y = 1\<rparr>]\<rparr>)"
    by (simp add: sample_psf_def Detector_def is_odd_def np_slice2_def py_slice_def py_bound_def
        reshape4_def Let_def mean_axes_1_3_def upt_rec)
  have run2: "sample_image (\<lambda>im. \<lparr>data = image_data im, sample_spacing = image_sample_spacing im,
                     samples_x = int (length (image_data im)), samples_y = int (ncols (image_data im))\<rparr>)
       ((Detector 2 (1024, 1024) 14)\<lparr>captures := [CapturedImage \<lparr>image_data = [[9]], image_sample_spacing = 1\<rparr>]\<rparr>)
       \<lparr>image_data = [[1, 2], [3, 4]], image_sample_spacing = 1\<rparr>
     = Inr (\<lparr>image_data = [[5 / 2]], image_sample_spacing = 2\<rparr>,
            (Detector 2 (1024, 1024) 14)
              \<lparr>captures := [CapturedImage \<lparr>image_data = [[9]], image_sample_spacing = 1\<rparr>,
                            CapturedPSF \<lparr>data = [[5 / 2]], sample_spacing = 2, samples_x = 1, samples_y = 1\<rparr>,
                            CapturedImage \<lparr>image_data = [[5 / 2]], image_sample_spacing = 2\<rparr>]\<rparr>)"
    by (simp add: sample_image_def ncols_def run Let_def)
  show ?thesis
    using run run2
      captures_append_only [of "((Detector 2 (1024, 1024) 14)\<lparr>captures := [CapturedImage \<lparr>image_data = [[9]], image_sample_spacing = 1\<rparr>]\<rparr>)"
        "\<lparr>data = [[1, 2], [3, 4]], sample_spacing = 1, samples_x = 2, samples_y = 2\<rparr>"
        "(\<lambda>im. \<lparr>data = image_data im, sample_spacing = image_sample_spacing im,
                     samples_x = int (length (image_data im)), samples_y = int (ncols (image_data im))\<rparr>)"
        "\<lparr>image_data = [[1, 2], [3, 4]], image_sample_spacing = 1\<rparr>"]
    by simp
qed

section \<open>Selecting a capture\<close>

text \<open>
  An integer selector never reaches the branch that indexes the capture history: the
  call \<open>which.lower()\<close> comes first and raises for it.
\<close>

lemma integer_which_raises:
  "save_image d path (WInt n) = Inl AttributeError \<and> show_image d (WInt n) = Inl AttributeError"
  by (simp add: save_image_def show_image_def lower_def)

lemma lower_last: "lower (WStr ''LaSt'') = Inr ''last''"
  by code_simp

lemma lower_first: "lower (WStr ''first'') = Inr ''first''"
  by code_simp

lemma lower_other: "lower (WStr ''newest'') = Inr ''newest''"
  by code_simp

text \<open>
  Claim C4 on a detector that holds one capture. With the integers \<open>-1\<close> and \<open>0\<close>,
  \<open>save_image\<close> and \<open>show_image\<close> raise \<open>AttributeError\<close> where the claim has them select
  the capture; \<open>''LaSt''\<close> selects the last capture, as claimed; \<open>''first''\<close> makes
  \<open>save_image\<close> raise and \<open>show_image\<close> do nothing; and on an unknown string
  \<open>show_image\<close> returns without raising.
\<close>

theorem which_selector_on_one_capture:
  "save_image ((Detector 2 (1024, 1024) 14)\<lparr>captures := [CapturedPSF \<lparr>data = [[1]], sample_spacing = 2, samples_x = 1, samples_y = 1\<rparr>]\<rparr>)
       ''out.png'' (WInt (- 1)) = Inl AttributeError
   \<and> save_image ((Detector 2 (1024, 1024) 14)\<lparr>captures := [CapturedPSF \<lparr>data = [[1]], sample_spacing = 2, samples_x = 1, samples_y = 1\<rparr>]\<rparr>)
       ''out.png'' (WInt 0) = Inl AttributeError
   \<and> show_image ((Detector 2 (1024, 1024) 14)\<lparr>captures := [CapturedPSF \<lparr>data = [[1]], sample_spacing = 2, samples_x = 1, samples_y = 1\<rparr>]\<rparr>)
       (WInt (- 1)) = Inl AttributeError
   \<and> save_image ((Detector 2 (1024, 1024) 14)\<lparr>captures := [CapturedPSF \<lparr>data = [[1]], sample_spacing = 2, samples_x = 1, samples_y = 1\<rparr>]\<rparr>)
       ''out.png'' (WStr ''LaSt'')
       = Inr (CapturedPSF \<lparr>data = [[1]], sample_spacing = 2, samples_x = 1, samples_y = 1\<rparr>, ''out.png'', 14)
   \<and> show_image ((Detector 2 (1024, 1024) 14)\<lparr>captures := [CapturedPSF \<lparr>data = [[1]], sample_spacing = 2, samples_x = 1, samples_y = 1\<rparr>]\<rparr>)
       (WStr ''LaSt'')
       = Inr (Some (CapturedPSF \<lparr>data = [[1]], sample_spacing = 2, samples_x = 1, samples_y = 1\<rparr>))
   \<and> save_image ((Detector 2 (1024, 1024) 14)\<lparr>captures := [CapturedPSF \<lparr>data = [[1]], sample_spacing = 2, samples_x = 1, samples_y = 1\<rparr>]\<rparr>)
       ''out.png'' (WStr ''first'') = Inl ValueError
   \<and> show_image ((Detector 2 (1024, 1024) 14)\<lparr>captures := [CapturedPSF \<lparr>data = [[1]], sample_spacing = 2, samples_x = 1, samples_y = 1\<rparr>]\<rparr>)
       (WStr ''first'') = Inr None
   \<and> show_image ((Detector 2 (1024, 1024) 14)\<lparr>captures := [CapturedPSF \<lparr>data = [[1]], sample_spacing = 2, samples_x = 1, samples_y = 1\<rparr>]\<rparr>)
       (WStr ''newest'') = Inr None"
  by (simp add: integer_which_raises)
    (simp add: save_image_def show_image_def lower_last lower_first lower_other py_index_def
      py_pos_def Detector_def)

section \<open>Trimming an odd residual\<close>

text \<open>
  With an odd residual on the first axis the two trim counts differ by one, and the slice
  that ends at \<open>final_idx_x + samples_right\<close> is one row short of \<open>final_idx_x\<close>. So
  whenever both axes hold at least one full block, the reshape is refused.
\<close>

lemma ceiling_half_int: "\<lceil>real_of_int r / 2\<rceil> = (r + 1) div 2"
  by linarith

lemma floor_half_int: "\<lfloor>real_of_int r / 2\<rfloor> = r div 2"
  by linarith

lemma length_py_slice:
  assumes "0 \<le> lo" and "lo \<le> hi" and "hi \<le> int (length xs)"
  shows "length (py_slice xs lo (Some hi)) = nat (hi - lo)"
  using assms by (simp add: py_slice_def py_bound_def Let_def)

lemma length_concat_rect:
  assumes "\<forall>row \<in> set a. length row = n"
  shows "length (concat a) = length a * n"
  using assms by (induction a) simp_all

lemma size_np_slice2:
  assumes "\<forall>row \<in> set a. int (length row) = w"
    and "0 \<le> r0" "r0 \<le> r1" "r1 \<le> int (length a)"
    and "0 \<le> c0" "c0 \<le> c1" "c1 \<le> w"
  shows "int (length (concat (np_slice2 a r0 r1 c0 c1))) = (r1 - r0) * (c1 - c0)"
proof -
  have rows: "length (np_slice2 a r0 r1 c0 c1) = nat (r1 - r0)"
    using assms(2-4) by (simp add: np_slice2_def length_py_slice)
  have "\<forall>row \<in> set (np_slice2 a r0 r1 c0 c1). length row = nat (c1 - c0)"
  proof
    fix row assume "row \<in> set (np_slice2 a r0 r1 c0 c1)"
    then obtain src where s: "src \<in> set (py_slice a r0 (Some r1))"
      and r: "row = py_slice src c0 (Some c1)"
      by (auto simp: np_slice2_def)
    have "src \<in> set a" using s unfolding py_slice_def Let_def
      by (meson in_set_takeD in_set_dropD)
    then have "c1 \<le> int (length src)" using assms(1,7) by auto
    then show "length row = nat (c1 - c0)"
      unfolding r using assms(5,6) by (intro length_py_slice)
  qed
  then have "length (concat (np_slice2 a r0 r1 c0 c1)) = nat (r1 - r0) * nat (c1 - c0)"
    using rows by (simp add: length_concat_rect [of _ "nat (c1 - c0)"])
  then show ?thesis using assms(3,6) by (simp add: nat_mult_distrib)
qed

lemma odd_residual_raises:
  assumes rows: "int (length (data p)) = samples_x p"
    and cols: "\<forall>row \<in> set (data p). int (length row) = samples_y p"
    and sp: "sample_spacing p \<noteq> 0"
    and pos: "0 < \<lceil>pixel_size d / sample_spacing p\<rceil>"
    and bx: "\<lceil>pixel_size d / sample_spacing p\<rceil> \<le> samples_x p"
    and by': "\<lceil>pixel_size d / sample_spacing p\<rceil> \<le> samples_y p"
    and odd: "is_odd (samples_x p mod \<lceil>pixel_size d / sample_spacing p\<rceil>)"
  shows "sample_psf d p = Inl ValueError"
proof -
  define s where "s = \<lceil>pixel_size d / sample_spacing p\<rceil>"
  define tx where "tx = samples_x p div s"
  define ty where "ty = samples_y p div s"
  define rx where "rx = samples_x p - tx * s"
  define ry where "ry = samples_y p - ty * s"
  have spos: "0 < s" using pos by (simp add: s_def)
  have rxm: "rx = samples_x p mod s" by (simp add: rx_def tx_def minus_div_mult_eq_mod)
  have rym: "ry = samples_y p mod s" by (simp add: ry_def ty_def minus_div_mult_eq_mod)
  have rxo: "is_odd rx" using odd by (simp add: rxm s_def)
  have rx0: "0 \<le> rx" "rx < s" using spos by (simp_all add: rxm)
  have ry0: "0 \<le> ry" "ry < s" using spos by (simp_all add: rym)
  have rx1: "1 \<le> rx"
  proof (rule ccontr)
    assume "\<not> 1 \<le> rx"
    then have "rx = 0" using rx0 by simp
    then show False using rxo by (simp add: is_odd_def)
  qed
  have bxs: "s \<le> samples_x p" "s \<le> samples_y p" using bx by' by (simp_all add: s_def)
  have tx1: "1 \<le> tx"
    unfolding tx_def using pos_imp_zdiv_pos_iff [OF spos, of "samples_x p"] bxs by simp
  have ty1: "1 \<le> ty"
    unfolding ty_def using pos_imp_zdiv_pos_iff [OF spos, of "samples_y p"] bxs by simp
  have fx: "1 \<le> tx * s" using mult_mono [of 1 tx 1 s] tx1 spos by simp
  have fy: "1 \<le> ty * s" using mult_mono [of 1 ty 1 s] ty1 spos by simp
  define left where "left = \<lceil>real_of_int rx / 2\<rceil>"
  define right where "right = \<lfloor>real_of_int rx / 2\<rfloor>"
  define cb where "cb = \<lceil>real_of_int ry / 2\<rceil>"
  have lr: "left = right + 1"
    using rxo unfolding left_def right_def ceiling_half_int floor_half_int is_odd_def
    by presburger
  have r0: "0 \<le> right" "right \<le> rx"
    using rx0 unfolding right_def floor_half_int by simp_all
  have c0: "0 \<le> cb" "cb \<le> ry"
    using ry0 unfolding cb_def ceiling_half_int by simp_all
  define T where "T = np_slice2 (data p) left (tx * s + right) cb (ty * s + cb)"
  have sx: "samples_x p = tx * s + rx" by (simp add: rx_def)
  have sy: "samples_y p = ty * s + ry" by (simp add: ry_def)
  have "int (length (concat T)) = (tx * s + right - left) * (ty * s + cb - cb)"
    unfolding T_def
  proof (rule size_np_slice2 [OF cols])
    show "0 \<le> left" using lr r0 by simp
    show "left \<le> tx * s + right" using lr fx by simp
    show "tx * s + right \<le> int (length (data p))" using rows sx r0 by simp
    show "0 \<le> cb" using c0 by simp
    show "cb \<le> ty * s + cb" using fy by simp
    show "ty * s + cb \<le> samples_y p" using sy c0 by simp
  qed
  then have size: "int (length (concat T)) = (tx * s - 1) * (ty * s)"
    using lr by simp
  have "(tx * s - 1) * (ty * s) \<noteq> tx * s * ty * s"
  proof
    assume "(tx * s - 1) * (ty * s) = tx * s * ty * s"
    then have "ty * s = 0" by (simp add: algebra_simps)
    then show False using fy by (simp only:)
  qed
  then have rs: "reshape4 T tx s ty s = Inl ValueError"
    using size by (simp add: reshape4_def)
  have od: "is_odd (samples_x p - tx * s)" using rxo by (simp add: rx_def)
  show ?thesis
    unfolding sample_psf_def Let_def s_def [symmetric] tx_def [symmetric] ty_def [symmetric]
      rx_def [symmetric] ry_def [symmetric] left_def [symmetric] right_def [symmetric]
      cb_def [symmetric] T_def [symmetric]
    using sp spos rxo rs by simp
qed

lemma ceiling_half: "\<lceil>1 / 2 :: real\<rceil> = 1"
  by (simp add: ceiling_eq_iff)

lemma floor_half: "\<lfloor>1 / 2 :: real\<rfloor> = 0"
  by (simp add: floor_eq_iff)

text \<open>
  Claim C2 on a 3 by 3 PSF sampled by pixels of two samples: \<open>samples_per_pixel = 2\<close>, one
  block per axis, residual 1. The slice \<open>[samples_left : final_idx_x + samples_right]\<close>
  is \<open>[1:2]\<close> and keeps one row where the claim keeps the two rows \<open>[1:3]\<close>; the
  trimmed block is 1 by 2, it cannot be reshaped to \<open>(1, 2, 1, 2)\<close> and the call raises.
\<close>

theorem sample_psf_odd_residual_raises:
  "np_slice2 [[1, 2, 3], [4, 5, 6], [7, 8, 9::real]]
       \<lceil>1 / 2 :: real\<rceil> (2 + \<lfloor>1 / 2 :: real\<rfloor>) \<lceil>1 / 2 :: real\<rceil> (2 + \<lceil>1 / 2 :: real\<rceil>)
     = [[5, 6]]
   \<and> reshape4 [[5, 6]] 1 2 1 2 = Inl ValueError
   \<and> sample_psf (Detector 2 (1024, 1024) 14)
       \<lparr>data = [[1, 2, 3], [4, 5, 6], [7, 8, 9]], sample_spacing = 1,
         samples_x = 3, samples_y = 3\<rparr>
     = Inl ValueError"
  by (simp add: sample_psf_def Detector_def is_odd_def np_slice2_def py_slice_def py_bound_def
      reshape4_def Let_def ceiling_half floor_half)

section \<open>Sampling a uniform PSF\<close>

text \<open>
  Whenever \<open>sample_psf\<close> returns, the block average of a constant array is the constant:
  every index the average reads lies inside the trimmed block, whose entries are entries
  of the PSF.
\<close>

lemma index_bound: "i < m \<Longrightarrow> a < n \<Longrightarrow> i * n + a < m * (n::nat)"
proof -
  assume i: "i < m" and a: "a < n"
  have "i * n + a < Suc i * n" using a by simp
  also have "\<dots> \<le> m * n" using i by (intro mult_le_mono1) simp
  finally show ?thesis .
qed

lemma block_index_bound:
  assumes "i < d0" and "a < d1" and "j < d2" and "b < (d3::nat)"
  shows "((i * d1 + a) * d2 + j) * d3 + b < d0 * d1 * d2 * d3"
proof -
  have "i * d1 + a < d0 * d1" using assms(1,2) by (rule index_bound)
  then have "(i * d1 + a) * d2 + j < d0 * d1 * d2" using assms(3) by (rule index_bound)
  then show ?thesis using assms(4) by (rule index_bound)
qed

lemma set_py_slice: "set (py_slice xs lo hi) \<subseteq> set xs"
  unfolding py_slice_def Let_def
  by (meson set_take_subset set_drop_subset subset_trans)

lemma np_slice2_entries:
  assumes "row \<in> set (np_slice2 a r0 r1 c0 c1)" and "x \<in> set row"
  shows "\<exists>src \<in> set a. x \<in> set src"
proof -
  from assms(1) obtain src where s: "src \<in> set (py_slice a r0 (Some r1))"
    and r: "row = py_slice src c0 (Some c1)"
    by (auto simp: np_slice2_def)
  have "src \<in> set a" by (rule subsetD [OF set_py_slice s])
  moreover have "x \<in> set src" using assms(2) unfolding r by (rule subsetD [OF set_py_slice])
  ultimately show ?thesis by blast
qed

lemma mean_uniform:
  assumes sh: "shape v = (d0, d1, d2, d3)"
    and len: "length (flat v) = d0 * d1 * d2 * d3"
    and pos: "0 < d1" "0 < d3"
    and un: "\<forall>x \<in> set (flat v). x = c"
  shows "\<forall>row \<in> set (mean_axes_1_3 v). \<forall>x \<in> set row. x = c"
proof -
  have cell: "(\<Sum>a\<leftarrow>[0..<d1]. \<Sum>b\<leftarrow>[0..<d3]. flat v ! (((i * d1 + a) * d2 + j) * d3 + b))
                / real (d1 * d3) = c"
    if "i < d0" "j < d2" for i j
  proof -
    have inner: "(\<Sum>b\<leftarrow>[0..<d3]. flat v ! (((i * d1 + a) * d2 + j) * d3 + b)) = real d3 * c"
      if "a < d1" for a
    proof -
      have "map (\<lambda>b. flat v ! (((i * d1 + a) * d2 + j) * d3 + b)) [0..<d3] = map (\<lambda>b. c) [0..<d3]"
      proof (rule map_cong [OF refl])
        fix b assume "b \<in> set [0..<d3]"
        then have "b < d3" by simp
        then have "((i * d1 + a) * d2 + j) * d3 + b < length (flat v)"
          using block_index_bound [OF \<open>i < d0\<close> \<open>a < d1\<close> \<open>j < d2\<close>] len by simp
        then show "flat v ! (((i * d1 + a) * d2 + j) * d3 + b) = c"
          using un nth_mem by blast
      qed
      then have "(\<Sum>b\<leftarrow>[0..<d3]. flat v ! (((i * d1 + a) * d2 + j) * d3 + b))
                   = (\<Sum>b\<leftarrow>[0..<d3]. c)"
        by (rule arg_cong)
      also have "\<dots> = real d3 * c" by (simp add: sum_list_triv)
      finally show ?thesis .
    qed
    have "map (\<lambda>a. \<Sum>b\<leftarrow>[0..<d3]. flat v ! (((i * d1 + a) * d2 + j) * d3 + b)) [0..<d1]
            = map (\<lambda>a. real d3 * c) [0..<d1]"
      by (rule map_cong [OF refl]) (simp add: inner)
    then have "(\<Sum>a\<leftarrow>[0..<d1]. \<Sum>b\<leftarrow>[0..<d3]. flat v ! (((i * d1 + a) * d2 + j) * d3 + b))
                 = (\<Sum>a\<leftarrow>[0..<d1]. real d3 * c)"
      by (rule arg_cong)
    also have "\<dots> = real d1 * (real d3 * c)" by (simp add: sum_list_triv)
    finally show ?thesis using pos by simp
  qed
  show ?thesis
    unfolding mean_axes_1_3_def sh using cell by auto
qed

lemma sample_psf_uniform_on_success:
  assumes run: "sample_psf d p = Inr (out, d')"
    and un: "\<forall>row \<in> set (data p). \<forall>x \<in> set row. x = v"
  shows "\<forall>row \<in> set (data out). \<forall>x \<in> set row. x = v"
proof -
  define spp where "spp = \<lceil>pixel_size d / sample_spacing p\<rceil>"
  from run obtain view r0 r1 c0 c1 where nz: "spp \<noteq> 0"
    and rs: "reshape4 (np_slice2 (data p) r0 r1 c0 c1) (samples_x p div spp) spp (samples_y p div spp) spp
               = Inr view"
    and od: "data out = mean_axes_1_3 view"
    unfolding sample_psf_def Let_def spp_def
    by (auto split: if_splits sum.splits)
  define t where "t = np_slice2 (data p) r0 r1 c0 c1"
  from rs have nn: "0 \<le> samples_x p div spp" "0 \<le> spp" "0 \<le> samples_y p div spp"
    and len: "int (length (concat t)) = samples_x p div spp * spp * (samples_y p div spp) * spp"
    and vw: "view = \<lparr>shape = (nat (samples_x p div spp), nat spp, nat (samples_y p div spp), nat spp),
                     flat = concat t\<rparr>"
    unfolding reshape4_def t_def by (auto split: if_splits)
  have sh: "shape view = (nat (samples_x p div spp), nat spp, nat (samples_y p div spp), nat spp)"
    by (simp add: vw)
  have "int (length (flat view))
          = int (nat (samples_x p div spp) * nat spp * nat (samples_y p div spp) * nat spp)"
    using len nn by (simp add: vw)
  then have fl: "length (flat view)
          = nat (samples_x p div spp) * nat spp * nat (samples_y p div spp) * nat spp"
    by (simp only: of_nat_eq_iff)
  have pos: "0 < nat spp" using nz nn(2) by simp
  have fu: "\<forall>x \<in> set (flat view). x = v"
    using un np_slice2_entries unfolding vw t_def by fastforce
  show ?thesis
    unfolding od using mean_uniform [OF sh fl pos pos fu] .
qed

text \<open>
  Claim C7 on the 3 by 3 PSF that is \<open>v\<close> everywhere, sampled by pixels of two samples:
  whatever \<open>v\<close> is, the call raises instead of returning the PSF that is \<open>v\<close>
  everywhere.
\<close>

theorem sample_psf_uniform_odd_residual_raises:
  "sample_psf (Detector 2 (1024, 1024) 14)
       \<lparr>data = [[v, v, v], [v, v, v], [v, v, v]], sample_spacing = 1,
         samples_x = 3, samples_y = 3\<rparr>
     = Inl ValueError"
  by (simp add: sample_psf_def Detector_def is_odd_def np_slice2_def py_slice_def py_bound_def
      reshape4_def Let_def ceiling_half floor_half)


end
